theory Spec2Isabelle
  imports Main "HOL-Library.Word" "HOL-Library.Code_Target_Nat"
begin

section \<open>Python values\<close>

text \<open>
  The program is \<^verbatim>\<open>SwiftFetch/Resources/native_host.py\<close>: a native-messaging host that
  reads length-prefixed JSON frames from standard input, dispatches on the \<^verbatim>\<open>type\<close> field
  and writes one framed JSON response per message.

  A Python \<^verbatim>\<open>bytes\<close> object is a list of 8-bit words, a Python \<^verbatim>\<open>str\<close> a list of Unicode
  code points. \<open>ascii\<close> turns a literal of the source into such a list.
\<close>

type_synonym byte = "8 word"
type_synonym pystr = "nat list"

definition ascii :: "string \<Rightarrow> pystr" where
  "ascii s = map of_char s"

text \<open>
  The objects \<^verbatim>\<open>json.loads\<close> returns. \<open>JNull\<close> is Python's \<^verbatim>\<open>None\<close>. A float is kept as
  the decimal value of its literal, \<open>Dec m e\<close> for \<open>m * 10 ^ e\<close>: rounding to binary64 is
  not part of the model. A dict is an association list in insertion order.
\<close>

datatype pyfloat = Dec int int | NaN | PosInf | NegInf

datatype json =
    JNull
  | JBool bool
  | JInt int
  | JFloat pyfloat
  | JStr pystr
  | JArr "json list"
  | JObj "(pystr \<times> json) list"

text \<open>
  An exception object is its class and the text \<^verbatim>\<open>str(e)\<close> gives. Every class below derives
  from \<^verbatim>\<open>Exception\<close>, so \<^verbatim>\<open>except Exception\<close> catches each of them.
\<close>

datatype exn =
    StructError
  | UnicodeDecodeError
  | UnicodeEncodeError
  | JSONDecodeError
  | AttributeError
  | TypeError
  | ValueError
  | BrokenPipeError
  | FileNotFoundError
  | PermissionError
  | CalledProcessError

type_synonym fault = "exn \<times> pystr"

text \<open>Truth value of an object, as \<^verbatim>\<open>not message\<close> tests it.\<close>

fun float_is_zero :: "pyfloat \<Rightarrow> bool" where
  "float_is_zero (Dec m e) =
     (if 0 \<le> e then m = 0 else \<bar>m\<bar> * 2 ^ 1075 \<le> 10 ^ nat (- e))"
| "float_is_zero NaN = False"
| "float_is_zero PosInf = False"
| "float_is_zero NegInf = False"

fun truthy :: "json \<Rightarrow> bool" where
  "truthy JNull = False"
| "truthy (JBool b) = b"
| "truthy (JInt i) = (i \<noteq> 0)"
| "truthy (JFloat f) = (\<not> float_is_zero f)"
| "truthy (JStr s) = (s \<noteq> [])"
| "truthy (JArr xs) = (xs \<noteq> [])"
| "truthy (JObj kvs) = (kvs \<noteq> [])"

subsection \<open>Decimal and hexadecimal digits\<close>

fun str_nat :: "nat \<Rightarrow> pystr" where
  "str_nat n = (if n < 10 then [48 + n] else str_nat (n div 10) @ [48 + n mod 10])"

declare str_nat.simps [simp del]

definition str_int :: "int \<Rightarrow> pystr" where
  "str_int i = (if i < 0 then 45 # str_nat (nat (- i)) else str_nat (nat i))"

definition hex_digit :: "nat \<Rightarrow> nat" where
  "hex_digit d = (if d < 10 then 48 + d else 87 + d)"

text \<open>\<^verbatim>\<open>'{0:02x}'\<close> and \<^verbatim>\<open>'{0:04x}'\<close>, for numbers below 256 and 65536.\<close>

definition hex2 :: "nat \<Rightarrow> pystr" where
  "hex2 n = [hex_digit (n div 16 mod 16), hex_digit (n mod 16)]"

definition hex4 :: "nat \<Rightarrow> pystr" where
  "hex4 n = hex2 (n div 256) @ hex2 (n mod 256)"

fun join :: "pystr \<Rightarrow> pystr list \<Rightarrow> pystr" where
  "join sep [] = []"
| "join sep [x] = x"
| "join sep (x # y # ys) = x @ sep @ join sep (y # ys)"

subsection \<open>\<^verbatim>\<open>json.dumps\<close>\<close>

text \<open>
  \<^verbatim>\<open>json.dumps(obj)\<close> with its defaults: \<^verbatim>\<open>ensure_ascii=True\<close>, separators
  \<^verbatim>\<open>', '\<close> and \<^verbatim>\<open>': '\<close>. A character outside \<^verbatim>\<open>' '..'~'\<close> is written as an escape;
  one above U+FFFF as a surrogate pair. Code points: 34 is the double quote, 92 the
  backslash, 117 the letter u.
\<close>

definition escape_ascii :: "nat \<Rightarrow> pystr" where
  "escape_ascii c =
     (if c = 92 then [92, 92]
      else if c = 34 then [92, 34]
      else if c = 8 then [92, 98]
      else if c = 12 then [92, 102]
      else if c = 10 then [92, 110]
      else if c = 13 then [92, 114]
      else if c = 9 then [92, 116]
      else if 32 \<le> c \<and> c \<le> 126 then [c]
      else if c < 65536 then 92 # 117 # hex4 c
      else (let n = c - 65536
            in 92 # 117 # hex4 (55296 + n div 1024 mod 1024) @
               92 # 117 # hex4 (56320 + n mod 1024)))"

definition encode_basestring_ascii :: "pystr \<Rightarrow> pystr" where
  "encode_basestring_ascii s = 34 # concat (map escape_ascii s) @ [34]"

text \<open>
  The digits Python prints for a float are those of the rounded binary64 value; the model
  prints the decimal it keeps.
\<close>

fun float_repr :: "pyfloat \<Rightarrow> pystr" where
  "float_repr (Dec m e) = str_int m @ ascii ''e'' @ str_int e"
| "float_repr NaN = ascii ''NaN''"
| "float_repr PosInf = ascii ''Infinity''"
| "float_repr NegInf = ascii ''-Infinity''"

fun json_dumps :: "json \<Rightarrow> pystr" where
  "json_dumps JNull = ascii ''null''"
| "json_dumps (JBool b) = (if b then ascii ''true'' else ascii ''false'')"
| "json_dumps (JInt i) = str_int i"
| "json_dumps (JFloat f) = float_repr f"
| "json_dumps (JStr s) = encode_basestring_ascii s"
| "json_dumps (JArr xs) = ascii ''['' @ join (ascii '', '') (map json_dumps xs) @ ascii '']''"
| "json_dumps (JObj kvs) =
     ascii ''{'' @
     join (ascii '', '')
       (map (\<lambda>kv. encode_basestring_ascii (fst kv) @ ascii '': '' @ json_dumps (snd kv)) kvs) @
     ascii ''}''"

subsection \<open>UTF-8\<close>

text \<open>
  \<^verbatim>\<open>str.encode('utf-8')\<close>. A surrogate code point cannot be encoded; a \<^verbatim>\<open>str\<close> holds
  code points below \<open>0x110000\<close> only. Code point 39 is the apostrophe of the messages.
\<close>

definition is_surrogate :: "nat \<Rightarrow> bool" where
  "is_surrogate c = (55296 \<le> c \<and> c \<le> 57343)"

definition utf8_encode_char :: "nat \<Rightarrow> byte list" where
  "utf8_encode_char c =
     (if c < 128 then [of_nat c]
      else if c < 2048 then [of_nat (192 + c div 64), of_nat (128 + c mod 64)]
      else if c < 65536 then
        [of_nat (224 + c div 4096), of_nat (128 + c div 64 mod 64), of_nat (128 + c mod 64)]
      else
        [of_nat (240 + c div 262144), of_nat (128 + c div 4096 mod 64),
         of_nat (128 + c div 64 mod 64), of_nat (128 + c mod 64)])"

fun utf8_encode_from :: "nat \<Rightarrow> pystr \<Rightarrow> fault + byte list" where
  "utf8_encode_from i [] = Inr []"
| "utf8_encode_from i (c # cs) =
     (if is_surrogate c then
        Inl (UnicodeEncodeError,
             ascii '''utf-8' codec can't encode character '' @ [39, 92, 117] @ hex4 c @
             39 # ascii '' in position '' @ str_nat i @ ascii '': surrogates not allowed'')
      else (case utf8_encode_from (Suc i) cs of
              Inl e \<Rightarrow> Inl e
            | Inr bs \<Rightarrow> Inr (utf8_encode_char c @ bs)))"

definition utf8_encode :: "pystr \<Rightarrow> fault + byte list" where
  "utf8_encode s = utf8_encode_from 0 s"

text \<open>
  \<^verbatim>\<open>bytes.decode('utf-8')\<close>. \<open>valid_conts n lo hi bs\<close> counts the continuation bytes at the
  head of \<open>bs\<close>, at most \<open>n\<close>, the first of them within \<open>lo..hi\<close>: the lead bytes E0, ED,
  F0 and F4 narrow the range of the byte after them, which excludes overlong forms,
  surrogates and code points above U+10FFFF.
\<close>

fun valid_conts :: "nat \<Rightarrow> nat \<Rightarrow> nat \<Rightarrow> byte list \<Rightarrow> nat" where
  "valid_conts n lo hi [] = 0"
| "valid_conts n lo hi (b # bs) =
     (if n = 0 then 0
      else if lo \<le> unat b \<and> unat b \<le> hi then Suc (valid_conts (n - 1) 128 191 bs)
      else 0)"

definition utf8_need :: "nat \<Rightarrow> nat" where
  "utf8_need c = (if c < 224 then 1 else if c < 240 then 2 else 3)"

definition utf8_second_lo :: "nat \<Rightarrow> nat" where
  "utf8_second_lo c = (if c = 224 then 160 else if c = 240 then 144 else 128)"

definition utf8_second_hi :: "nat \<Rightarrow> nat" where
  "utf8_second_hi c = (if c = 237 then 159 else if c = 244 then 143 else 191)"

definition utf8_lead_bits :: "nat \<Rightarrow> nat" where
  "utf8_lead_bits c = (if c < 224 then c - 192 else if c < 240 then c - 224 else c - 240)"

definition utf8_decode_error :: "byte \<Rightarrow> nat \<Rightarrow> nat \<Rightarrow> pystr \<Rightarrow> fault" where
  "utf8_decode_error b i k reason =
     (UnicodeDecodeError,
      (if k = 0 then
         ascii '''utf-8' codec can't decode byte 0x'' @ hex2 (unat b) @
         ascii '' in position '' @ str_nat i
       else
         ascii '''utf-8' codec can't decode bytes in position '' @ str_nat i @
         ascii ''-'' @ str_nat (i + k)) @ ascii '': '' @ reason)"

fun utf8_decode_from :: "nat \<Rightarrow> byte list \<Rightarrow> fault + pystr" where
  "utf8_decode_from i [] = Inr []"
| "utf8_decode_from i (b # bs) =
     (let c = unat b in
      if c < 128 then
        (case utf8_decode_from (Suc i) bs of Inl e \<Rightarrow> Inl e | Inr s \<Rightarrow> Inr (c # s))
      else if c < 194 \<or> 244 < c then
        Inl (utf8_decode_error b i 0 (ascii ''invalid start byte''))
      else
        (let n = utf8_need c;
             k = valid_conts n (utf8_second_lo c) (utf8_second_hi c) bs
         in if k < n then
              Inl (utf8_decode_error b i k
                     (if length bs \<le> k then ascii ''unexpected end of data''
                      else ascii ''invalid continuation byte''))
            else
              (case utf8_decode_from (Suc (i + n)) (drop n bs) of
                 Inl e \<Rightarrow> Inl e
               | Inr s \<Rightarrow>
                   Inr (foldl (\<lambda>a x. a * 64 + (unat x - 128)) (utf8_lead_bits c) (take n bs) # s))))"

definition utf8_decode :: "byte list \<Rightarrow> fault + pystr" where
  "utf8_decode bs = utf8_decode_from 0 bs"

subsection \<open>\<^verbatim>\<open>struct\<close>\<close>

text \<open>
  \<^verbatim>\<open>struct.pack('I', n)\<close> and \<^verbatim>\<open>struct.unpack('I', b)[0]\<close>: an unsigned 32-bit integer
  in the byte order of the machine, which is little-endian on every machine macOS (the
  system of \<^verbatim>\<open>open -a\<close> and \<^verbatim>\<open>/Applications\<close>) runs on.
\<close>

definition struct_pack_I :: "nat \<Rightarrow> fault + byte list" where
  "struct_pack_I n =
     (if n < 4294967296 then
        Inr [of_nat n, of_nat (n div 256), of_nat (n div 65536), of_nat (n div 16777216)]
      else Inl (StructError, ascii '''I' format requires 0 <= number <= 4294967295''))"

definition struct_unpack_I :: "byte list \<Rightarrow> fault + nat" where
  "struct_unpack_I bs =
     (case bs of
        [b0, b1, b2, b3] \<Rightarrow>
          Inr (unat b0 + 256 * unat b1 + 65536 * unat b2 + 16777216 * unat b3)
      | _ \<Rightarrow> Inl (StructError, ascii ''unpack requires a buffer of 4 bytes''))"

subsection \<open>\<^verbatim>\<open>json.loads\<close>\<close>

text \<open>
  The decoder of \<^verbatim>\<open>json.loads(s)\<close> for a \<^verbatim>\<open>str\<close>, with its defaults (strict strings,
  \<^verbatim>\<open>NaN\<close> and \<^verbatim>\<open>Infinity\<close> accepted). A parse error is the message and the number of
  characters left at the position Python reports. Limits of the interpreter (recursion
  depth, digits of an integer literal, memory) are not part of the model.
\<close>

type_synonym jerr = "pystr \<times> nat"

definition is_ws :: "nat \<Rightarrow> bool" where
  "is_ws c = (c = 32 \<or> c = 9 \<or> c = 10 \<or> c = 13)"

definition skip_ws :: "pystr \<Rightarrow> pystr" where
  "skip_ws cs = dropWhile is_ws cs"

definition is_digit :: "nat \<Rightarrow> bool" where
  "is_digit c = (48 \<le> c \<and> c \<le> 57)"

definition digits_value :: "pystr \<Rightarrow> nat" where
  "digits_value ds = foldl (\<lambda>a d. a * 10 + (d - 48)) 0 ds"

definition hex_value :: "nat \<Rightarrow> nat option" where
  "hex_value c =
     (if 48 \<le> c \<and> c \<le> 57 then Some (c - 48)
      else if 97 \<le> c \<and> c \<le> 102 then Some (c - 87)
      else if 65 \<le> c \<and> c \<le> 70 then Some (c - 55)
      else None)"

definition hex4_value :: "pystr \<Rightarrow> nat option" where
  "hex4_value ds =
     (case map hex_value ds of
        [Some a, Some b, Some c, Some d] \<Rightarrow> Some (((a * 16 + b) * 16 + c) * 16 + d)
      | _ \<Rightarrow> None)"

definition unescape :: "nat \<Rightarrow> nat option" where
  "unescape e =
     (if e = 34 then Some 34
      else if e = 92 then Some 92
      else if e = 47 then Some 47
      else if e = 98 then Some 8
      else if e = 102 then Some 12
      else if e = 110 then Some 10
      else if e = 114 then Some 13
      else if e = 116 then Some 9
      else None)"

definition str_cons :: "nat \<Rightarrow> jerr + pystr \<times> pystr \<Rightarrow> jerr + pystr \<times> pystr" where
  "str_cons x res = (case res of Inl e \<Rightarrow> Inl e | Inr (s, r) \<Rightarrow> Inr (x # s, r))"

definition unterminated :: pystr where
  "unterminated = ascii ''Unterminated string starting at''"

definition invalid_uXXXX :: pystr where
  "invalid_uXXXX = ascii ''Invalid '' @ 92 # ascii ''uXXXX escape''"

text \<open>
  \<open>scanstring begin cs\<close> reads a string literal whose opening quote has been consumed,
  \<open>begin\<close> characters before the end of the text. An escaped high surrogate followed by
  an escaped low surrogate is one character.
\<close>

fun scanstring :: "nat \<Rightarrow> pystr \<Rightarrow> jerr + pystr \<times> pystr" where
  "scanstring begin [] = Inl (unterminated, begin)"
| "scanstring begin (c # cs) =
     (if c = 34 then Inr ([], cs)
      else if c = 92 then
        (case cs of
           [] \<Rightarrow> Inl (unterminated, begin)
         | e # r \<Rightarrow>
             if e = 117 then
               (if length r \<le> 4 then Inl (invalid_uXXXX, Suc (length r))
                else
                  (case hex4_value (take 4 r) of
                     None \<Rightarrow> Inl (invalid_uXXXX, Suc (length r))
                   | Some u \<Rightarrow>
                       if 55296 \<le> u \<and> u \<le> 56319 \<and> 6 < length r - 4 \<and>
                          take 2 (drop 4 r) = [92, 117]
                       then
                         (case hex4_value (take 4 (drop 6 r)) of
                            None \<Rightarrow> Inl (invalid_uXXXX, length r - 5)
                          | Some u2 \<Rightarrow>
                              if 56320 \<le> u2 \<and> u2 \<le> 57343 then
                                str_cons (65536 + (u - 55296) * 1024 + (u2 - 56320))
                                  (scanstring begin (drop 10 r))
                              else str_cons u (scanstring begin (drop 4 r)))
                       else str_cons u (scanstring begin (drop 4 r))))
             else
               (case unescape e of
                  None \<Rightarrow> Inl (ascii ''Invalid '' @ 92 # ascii ''escape'', Suc (Suc (length r)))
                | Some x \<Rightarrow> str_cons x (scanstring begin r)))
      else if c < 32 then Inl (ascii ''Invalid control character at'', Suc (length cs))
      else str_cons c (scanstring begin cs))"

text \<open>
  A number literal: \<^verbatim>\<open>-?(0|[1-9][0-9]*)(\.[0-9]+)?([eE][-+]?[0-9]+)?\<close>, an \<^verbatim>\<open>int\<close> when it
  has neither fraction nor exponent.
\<close>

definition match_exponent :: "pystr \<Rightarrow> (int \<times> pystr) option" where
  "match_exponent cs =
     (case cs of
        [] \<Rightarrow> None
      | e # r \<Rightarrow>
          if e = 101 \<or> e = 69 then
            (let sr = (case r of
                         [] \<Rightarrow> (1, r)
                       | s # t \<Rightarrow> if s = 45 then (- 1, t) else if s = 43 then (1, t) else (1, r));
                 ds = takeWhile is_digit (snd sr)
             in if ds = [] then None
                else Some (fst sr * int (digits_value ds), dropWhile is_digit (snd sr)))
          else None)"

definition match_int :: "pystr \<Rightarrow> (pystr \<times> pystr) option" where
  "match_int cs =
     (case cs of
        [] \<Rightarrow> None
      | d # r \<Rightarrow>
          if d = 48 then Some ([d], r)
          else if 49 \<le> d \<and> d \<le> 57 then Some (d # takeWhile is_digit r, dropWhile is_digit r)
          else None)"

definition match_frac :: "pystr \<Rightarrow> pystr \<times> pystr" where
  "match_frac cs =
     (case cs of
        p # d # r \<Rightarrow>
          if p = 46 \<and> is_digit d then (takeWhile is_digit (d # r), dropWhile is_digit (d # r))
          else ([], cs)
      | _ \<Rightarrow> ([], cs))"

definition match_number :: "pystr \<Rightarrow> (json \<times> pystr) option" where
  "match_number cs =
     (let neg = (case cs of [] \<Rightarrow> False | c # r \<Rightarrow> c = 45);
          sgn = (if neg then - 1 else 1)
      in case match_int (if neg then tl cs else cs) of
           None \<Rightarrow> None
         | Some (ds, r1) \<Rightarrow>
             (case match_frac r1 of
                (fs, r2) \<Rightarrow>
                  (case match_exponent r2 of
                     None \<Rightarrow>
                       if fs = [] then Some (JInt (sgn * int (digits_value ds)), r2)
                       else Some (JFloat (Dec (sgn * int (digits_value (ds @ fs)))
                                            (- int (length fs))), r2)
                   | Some (x, r3) \<Rightarrow>
                       Some (JFloat (Dec (sgn * int (digits_value (ds @ fs)))
                                       (x - int (length fs))), r3))))"

text \<open>\<^verbatim>\<open>d[k] = v\<close>: a key already present keeps its place.\<close>

fun dict_set :: "(pystr \<times> json) list \<Rightarrow> pystr \<Rightarrow> json \<Rightarrow> (pystr \<times> json) list" where
  "dict_set [] k v = [(k, v)]"
| "dict_set (p # kvs) k v = (if fst p = k then (k, v) # kvs else p # dict_set kvs k v)"

text \<open>
  A key of an object with its colon, read at the first character after the white space:
  the key and the text after the colon and its white space.
\<close>

definition object_key :: "pystr \<Rightarrow> jerr + pystr \<times> pystr" where
  "object_key cs =
     (case cs of
        [] \<Rightarrow> Inl (ascii ''Expecting property name enclosed in double quotes'', 0)
      | c # r \<Rightarrow>
          if c \<noteq> 34 then
            Inl (ascii ''Expecting property name enclosed in double quotes'', length cs)
          else
            (case scanstring (length cs) r of
               Inl e \<Rightarrow> Inl e
             | Inr (k, r1) \<Rightarrow>
                 (case skip_ws r1 of
                    [] \<Rightarrow> Inl (ascii ''Expecting ':' delimiter'', 0)
                  | d # r3 \<Rightarrow>
                      if d = 58 then Inr (k, skip_ws r3)
                      else Inl (ascii ''Expecting ':' delimiter'', Suc (length r3)))))"

text \<open>
  The containers being read, innermost first: an array with the elements read so far, an
  object with the pairs read so far and the key whose value is being read.
\<close>

datatype frame = InArr "json list" | InObj "(pystr \<times> json) list" pystr

text \<open>
  \<open>scan_once st cs\<close> reads a value at the head of \<open>cs\<close> inside the containers \<open>st\<close>;
  \<open>scan_next st v cs\<close> goes on after the value \<open>v\<close>: the comma or the closing bracket of
  the innermost container, or the end of the text when there is none.
\<close>

function scan_once :: "frame list \<Rightarrow> pystr \<Rightarrow> jerr + json"
  and scan_next :: "frame list \<Rightarrow> json \<Rightarrow> pystr \<Rightarrow> jerr + json" where
  "scan_once st cs =
     (case cs of
        [] \<Rightarrow> Inl (ascii ''Expecting value'', 0)
      | c # r \<Rightarrow>
          if c = 34 then
            (case scanstring (length cs) r of
               Inl e \<Rightarrow> Inl e
             | Inr (s, r1) \<Rightarrow> scan_next st (JStr s) r1)
          else if c = 123 then
            (case skip_ws r of
               [] \<Rightarrow> Inl (ascii ''Expecting property name enclosed in double quotes'', 0)
             | d # r1 \<Rightarrow>
                 if d = 125 then scan_next st (JObj []) r1
                 else
                   (case object_key (d # r1) of
                      Inl e \<Rightarrow> Inl e
                    | Inr (k, r2) \<Rightarrow> scan_once (InObj [] k # st) r2))
          else if c = 91 then
            (case skip_ws r of
               [] \<Rightarrow> Inl (ascii ''Expecting value'', 0)
             | d # r1 \<Rightarrow>
                 if d = 93 then scan_next st (JArr []) r1
                 else scan_once (InArr [] # st) (d # r1))
          else if take 4 cs = ascii ''null'' then scan_next st JNull (drop 4 cs)
          else if take 4 cs = ascii ''true'' then scan_next st (JBool True) (drop 4 cs)
          else if take 5 cs = ascii ''false'' then scan_next st (JBool False) (drop 5 cs)
          else if take 3 cs = ascii ''NaN'' then scan_next st (JFloat NaN) (drop 3 cs)
          else if take 8 cs = ascii ''Infinity'' then scan_next st (JFloat PosInf) (drop 8 cs)
          else if take 9 cs = ascii ''-Infinity'' then scan_next st (JFloat NegInf) (drop 9 cs)
          else
            (case match_number cs of
               None \<Rightarrow> Inl (ascii ''Expecting value'', length cs)
             | Some (v, r1) \<Rightarrow> scan_next st v r1))"
| "scan_next st v cs =
     (case st of
        [] \<Rightarrow>
          (case skip_ws cs of
             [] \<Rightarrow> Inr v
           | d # r \<Rightarrow> Inl (ascii ''Extra data'', Suc (length r)))
      | InArr xs # st' \<Rightarrow>
          (case skip_ws cs of
             [] \<Rightarrow> Inl (ascii ''Expecting ',' delimiter'', 0)
           | d # r \<Rightarrow>
               if d = 93 then scan_next st' (JArr (xs @ [v])) r
               else if d = 44 then scan_once (InArr (xs @ [v]) # st') (skip_ws r)
               else Inl (ascii ''Expecting ',' delimiter'', Suc (length r)))
      | InObj kvs k # st' \<Rightarrow>
          (case skip_ws cs of
             [] \<Rightarrow> Inl (ascii ''Expecting ',' delimiter'', 0)
           | d # r \<Rightarrow>
               if d = 125 then scan_next st' (JObj (dict_set kvs k v)) r
               else if d = 44 then
                 (case object_key (skip_ws r) of
                    Inl e \<Rightarrow> Inl e
                  | Inr (k', r2) \<Rightarrow> scan_once (InObj (dict_set kvs k v) k' # st') r2)
               else Inl (ascii ''Expecting ',' delimiter'', Suc (length r))))"
  by pat_completeness auto

termination
proof -
  have ws: "length (skip_ws cs) \<le> length cs" for cs
    by (simp add: skip_ws_def length_dropWhile_le)
  have wsc: "length r < length cs \<and> length (skip_ws r) < length cs"
    if "skip_ws cs = d # r" for cs d r
    using ws [of cs] ws [of r] that by simp
  have sc: "\<exists>s'. res = Inr (s', r)" if "str_cons x res = Inr (s, r)" for x res s r
    using that by (auto simp: str_cons_def split: sum.splits)
  have ss: "length r < length cs" if "scanstring b cs = Inr (s, r)" for b cs s r
    using that
  proof (induction "length cs" arbitrary: cs s r rule: less_induct)
    case less
    show ?case
    proof (cases cs)
      case Nil
      with less.prems show ?thesis by simp
    next
      case (Cons c cs')
      have IH: "length r < length xs"
        if "scanstring b xs = Inr (s', r)" "length xs \<le> length cs'" for xs s'
        using less.hyps [of xs s' r] that Cons by simp
      from less.prems Cons show ?thesis
        by (auto split: if_splits option.splits list.splits dest!: sc dest: IH)
    qed
  qed
  have mi: "length r < length cs" if "match_int cs = Some (ds, r)" for cs ds r
    using that
    by (auto simp: match_int_def split: list.splits if_splits
             intro: le_imp_less_Suc [OF length_dropWhile_le])
  have mf: "length r \<le> length cs" if "match_frac cs = (fs, r)" for cs fs r
    using that
    by (auto simp: match_frac_def split: list.splits if_splits
             intro: le_trans [OF length_dropWhile_le])
  have me: "length r \<le> length cs" if "match_exponent cs = Some (x, r)" for cs x r
    using that
    by (auto simp: match_exponent_def Let_def split: list.splits if_splits
             intro: le_trans [OF length_dropWhile_le])
  have num: "length r < length cs" if "match_number cs = Some (v, r)" for cs v r
  proof -
    from that obtain ds r1 fs r2 where
      a: "match_int (if (case cs of [] \<Rightarrow> False | c # r \<Rightarrow> c = 45) then tl cs else cs) = Some (ds, r1)"
      and b: "match_frac r1 = (fs, r2)"
      and c: "r = r2 \<or> (\<exists>x. match_exponent r2 = Some (x, r))"
      by (auto simp: match_number_def Let_def split: option.splits prod.splits if_splits)
    from mi [OF a] have "length r1 < length cs"
      by (cases cs) (auto split: if_splits)
    moreover from mf [OF b] have "length r2 \<le> length r1" .
    moreover from c me have "length r \<le> length r2" by auto
    ultimately show ?thesis by simp
  qed
  have key: "length r < length cs" if "object_key cs = Inr (k, r)" for cs k r
  proof -
    from that obtain c cs' r1 d r3 where cs: "cs = c # cs'"
      and "scanstring (length cs) cs' = Inr (k, r1)"
      and "skip_ws r1 = d # r3" and "r = skip_ws r3"
      by (auto simp: object_key_def split: list.splits if_splits sum.splits)
    then show ?thesis
      using ss [of "length cs" cs' k r1] ws [of r1] ws [of r3] by simp
  qed
  show ?thesis
  proof (relation "measure (\<lambda>x. case x of Inl (st, cs) \<Rightarrow> length cs
                                        | Inr (st, v, cs) \<Rightarrow> length cs)", goal_cases)
    case 1
    show ?case by simp
  next
    case (2 st cs c r b s r1)
    then show ?case using ss [of "length cs" r s r1] by simp
  qed (auto dest!: wsc key num)
qed

declare scan_once.simps [simp del] scan_next.simps [simp del]

text \<open>
  \<^verbatim>\<open>str(e)\<close> of a \<^verbatim>\<open>JSONDecodeError\<close> names the line, the column and the index of the
  error. \<^verbatim>\<open>json.loads\<close> refuses a text that starts with a byte order mark, skips white
  space, reads one value and accepts only white space after it.
\<close>

definition json_error :: "pystr \<Rightarrow> pystr \<Rightarrow> nat \<Rightarrow> fault" where
  "json_error msg doc pos =
     (JSONDecodeError,
      msg @ ascii '': line '' @ str_nat (Suc (count_list (take pos doc) 10)) @
      ascii '' column '' @ str_nat (Suc (length (takeWhile (\<lambda>c. c \<noteq> 10) (rev (take pos doc))))) @
      ascii '' (char '' @ str_nat pos @ ascii '')'')"

definition json_loads :: "pystr \<Rightarrow> fault + json" where
  "json_loads s =
     (if take 1 s = [65279] then
        Inl (json_error (ascii ''Unexpected UTF-8 BOM (decode using utf-8-sig)'') s 0)
      else
        (case scan_once [] (skip_ws s) of
           Inl (msg, left) \<Rightarrow> Inl (json_error msg s (length s - left))
         | Inr v \<Rightarrow> Inr v))"

subsection \<open>Attribute lookup and formatting\<close>

definition type_name :: "json \<Rightarrow> pystr" where
  "type_name v =
     (case v of
        JNull \<Rightarrow> ascii ''NoneType''
      | JBool b \<Rightarrow> ascii ''bool''
      | JInt i \<Rightarrow> ascii ''int''
      | JFloat f \<Rightarrow> ascii ''float''
      | JStr s \<Rightarrow> ascii ''str''
      | JArr xs \<Rightarrow> ascii ''list''
      | JObj kvs \<Rightarrow> ascii ''dict'')"

text \<open>
  \<^verbatim>\<open>obj.get(key, default)\<close>: only a dict has the method; on any other object the
  attribute lookup raises.
\<close>

definition py_get :: "json \<Rightarrow> pystr \<Rightarrow> json \<Rightarrow> fault + json" where
  "py_get obj key dflt =
     (case obj of
        JObj kvs \<Rightarrow> Inr (case map_of kvs key of None \<Rightarrow> dflt | Some v \<Rightarrow> v)
      | _ \<Rightarrow>
          Inl (AttributeError,
               39 # type_name obj @ 39 # ascii '' object has no attribute 'get'' @ [39]))"

text \<open>
  \<^verbatim>\<open>repr\<close> and \<^verbatim>\<open>str\<close>, which an f-string applies to the value it formats. \<^verbatim>\<open>repr\<close> of a
  \<^verbatim>\<open>str\<close> escapes the characters Unicode calls non-printable; the model knows those of
  ASCII and leaves every character above U+007F as it is.
\<close>

definition repr_char :: "nat \<Rightarrow> nat \<Rightarrow> pystr" where
  "repr_char q c =
     (if c = 92 then [92, 92]
      else if c = q then [92, q]
      else if c = 9 then [92, 116]
      else if c = 10 then [92, 110]
      else if c = 13 then [92, 114]
      else if c < 32 \<or> c = 127 then 92 # 120 # hex2 c
      else [c])"

definition repr_str :: "pystr \<Rightarrow> pystr" where
  "repr_str s =
     (let q = (if 39 \<in> set s \<and> 34 \<notin> set s then 34 else 39)
      in q # concat (map (repr_char q) s) @ [q])"

fun py_repr :: "json \<Rightarrow> pystr" where
  "py_repr JNull = ascii ''None''"
| "py_repr (JBool b) = (if b then ascii ''True'' else ascii ''False'')"
| "py_repr (JInt i) = str_int i"
| "py_repr (JFloat f) =
     (case f of
        Dec m e \<Rightarrow> float_repr f
      | NaN \<Rightarrow> ascii ''nan''
      | PosInf \<Rightarrow> ascii ''inf''
      | NegInf \<Rightarrow> ascii ''-inf'')"
| "py_repr (JStr s) = repr_str s"
| "py_repr (JArr xs) = ascii ''['' @ join (ascii '', '') (map py_repr xs) @ ascii '']''"
| "py_repr (JObj kvs) =
     ascii ''{'' @
     join (ascii '', '') (map (\<lambda>kv. repr_str (fst kv) @ ascii '': '' @ py_repr (snd kv)) kvs) @
     ascii ''}''"

definition py_str :: "json \<Rightarrow> pystr" where
  "py_str v = (case v of JStr s \<Rightarrow> s | _ \<Rightarrow> py_repr v)"

section \<open>The world of the process\<close>

text \<open>
  What the host reads and changes. \<open>stdin\<close> holds the bytes not yet read; the stream is
  at its end when they are used up. A write goes to \<open>stdout_buffer\<close> and a flush moves the
  buffer to \<open>stdout_sent\<close>, the bytes the browser has received; on a broken pipe the flush
  raises. \<open>path_exists\<close> is the file system as \<^verbatim>\<open>os.path.exists\<close> sees it, \<open>spawn\<close> the
  outcome of running a command with \<^verbatim>\<open>check=True\<close> (\<open>None\<close> when it exits with status
  0), \<open>launched\<close> the commands run so far. The calls of \<^verbatim>\<open>logging\<close> write to a log file
  and never raise into the program; they are left out.
\<close>

record world =
  stdin :: "byte list"
  stdout_buffer :: "byte list"
  stdout_sent :: "byte list"
  stdout_broken :: bool
  path_exists :: "pystr \<Rightarrow> bool"
  spawn :: "pystr list \<Rightarrow> fault option"
  launched :: "pystr list list"

text \<open>\<^verbatim>\<open>sys.stdin.buffer.read(n)\<close>: the next \<open>n\<close> bytes, fewer at the end of the stream.\<close>

definition stdin_read :: "nat \<Rightarrow> world \<Rightarrow> byte list \<times> world" where
  "stdin_read n w = (take n (stdin w), w\<lparr>stdin := drop n (stdin w)\<rparr>)"

definition stdout_write :: "byte list \<Rightarrow> world \<Rightarrow> world" where
  "stdout_write bs w = w\<lparr>stdout_buffer := stdout_buffer w @ bs\<rparr>"

definition stdout_flush :: "world \<Rightarrow> (fault + unit) \<times> world" where
  "stdout_flush w =
     (if stdout_broken w then (Inl (BrokenPipeError, ascii ''[Errno 32] Broken pipe''), w)
      else (Inr (), w\<lparr>stdout_sent := stdout_sent w @ stdout_buffer w, stdout_buffer := []\<rparr>))"

text \<open>
  \<^verbatim>\<open>subprocess.run(args, check=True)\<close>. Each argument is converted for \<^verbatim>\<open>exec\<close> first:
  one that is not a \<^verbatim>\<open>str\<close>, cannot be encoded or holds a null character raises, and
  no command runs.
\<close>

definition exec_arg :: "json \<Rightarrow> fault + pystr" where
  "exec_arg a =
     (case a of
        JStr s \<Rightarrow>
          (case find (\<lambda>c. is_surrogate c \<and> \<not> (56448 \<le> c \<and> c \<le> 56575)) s of
             Some c \<Rightarrow>
               Inl (UnicodeEncodeError,
                    ascii '''utf-8' codec can't encode character '' @ [39, 92, 117] @ hex4 c @
                    39 # ascii '' in position '' @
                    str_nat (length (takeWhile (\<lambda>x. x \<noteq> c) s)) @
                    ascii '': surrogates not allowed'')
           | None \<Rightarrow>
               if 0 \<in> set s then Inl (ValueError, ascii ''embedded null byte'') else Inr s)
      | _ \<Rightarrow>
          Inl (TypeError,
               ascii ''expected str, bytes or os.PathLike object, not '' @ type_name a))"

fun exec_args :: "json list \<Rightarrow> fault + pystr list" where
  "exec_args [] = Inr []"
| "exec_args (a # as) =
     (case exec_arg a of
        Inl e \<Rightarrow> Inl e
      | Inr s \<Rightarrow> (case exec_args as of Inl e \<Rightarrow> Inl e | Inr ss \<Rightarrow> Inr (s # ss)))"

definition subprocess_run :: "json list \<Rightarrow> world \<Rightarrow> (fault + unit) \<times> world" where
  "subprocess_run args w =
     (case exec_args args of
        Inl e \<Rightarrow> (Inl e, w)
      | Inr cmd \<Rightarrow>
          (case spawn w cmd of
             Some e \<Rightarrow> (Inl e, w\<lparr>launched := launched w @ [cmd]\<rparr>)
           | None \<Rightarrow> (Inr (), w\<lparr>launched := launched w @ [cmd]\<rparr>)))"

section \<open>The native messaging host\<close>

subsection \<open>\<^verbatim>\<open>read_message\<close>\<close>

text \<open>
  \<^verbatim>\<open>
  raw_length = sys.stdin.buffer.read(4)
  if not raw_length:
      return None
  message_length = struct.unpack('I', raw_length)[0]
  message = sys.stdin.buffer.read(message_length).decode('utf-8')
  return json.loads(message)
  \<close>
  The result is the exception raised or the object returned, with the world after the
  reads: bytes read before a fault stay read.
\<close>

definition read_message :: "world \<Rightarrow> (fault + json) \<times> world" where
  "read_message w =
     (case stdin_read 4 w of
        (raw_length, w1) \<Rightarrow>
          if raw_length = [] then (Inr JNull, w1)
          else
            (case struct_unpack_I raw_length of
               Inl e \<Rightarrow> (Inl e, w1)
             | Inr message_length \<Rightarrow>
                 (case stdin_read message_length w1 of
                    (payload, w2) \<Rightarrow>
                      (case utf8_decode payload of
                         Inl e \<Rightarrow> (Inl e, w2)
                       | Inr message \<Rightarrow> (json_loads message, w2)))))"

subsection \<open>\<^verbatim>\<open>write_message\<close>\<close>

text \<open>
  \<^verbatim>\<open>
  encoded = json.dumps(message).encode('utf-8')
  sys.stdout.buffer.write(struct.pack('I', len(encoded)))
  sys.stdout.buffer.write(encoded)
  sys.stdout.flush()
  \<close>
\<close>

definition write_message :: "json \<Rightarrow> world \<Rightarrow> (fault + unit) \<times> world" where
  "write_message message w =
     (case utf8_encode (json_dumps message) of
        Inl e \<Rightarrow> (Inl e, w)
      | Inr encoded \<Rightarrow>
          (case struct_pack_I (length encoded) of
             Inl e \<Rightarrow> (Inl e, w)
           | Inr header \<Rightarrow> stdout_flush (stdout_write encoded (stdout_write header w))))"

subsection \<open>\<^verbatim>\<open>handle_download\<close>\<close>

definition app_paths :: "pystr list" where
  "app_paths =
     [ascii ''/Applications/SwiftFetch.app'',
      ascii ''/Users/devitripathy/Library/Developer/Xcode/DerivedData/SwiftFetch-hkguncbcnfxahpcsjswpmkdlbqjt/Build/Products/Debug/SwiftFetch.app'']"

text \<open>
  The loop over \<^verbatim>\<open>app_paths\<close> with its \<^verbatim>\<open>break\<close>: the first path that exists, \<open>None\<close>
  when no path does.
\<close>

fun find_app :: "world \<Rightarrow> pystr list \<Rightarrow> pystr option" where
  "find_app w [] = None"
| "find_app w (path # paths) = (if path_exists w path then Some path else find_app w paths)"

text \<open>
  The body of the \<^verbatim>\<open>try\<close>, then the function with its \<^verbatim>\<open>except Exception\<close>, which turns
  every fault into \<^verbatim>\<open>False\<close>. A path found is a non-empty string, so \<^verbatim>\<open>not app_path\<close>
  holds exactly when none was found. \<open>filename\<close> is a parameter the body never reads.
\<close>

definition handle_download_try :: "json \<Rightarrow> json \<Rightarrow> world \<Rightarrow> (fault + bool) \<times> world" where
  "handle_download_try url filename w =
     (case find_app w app_paths of
        None \<Rightarrow> (Inr False, w)
      | Some app_path \<Rightarrow>
          (case subprocess_run [JStr (ascii ''open''), JStr (ascii ''-a''), JStr app_path, url] w of
             (Inl e, w1) \<Rightarrow> (Inl e, w1)
           | (Inr u, w1) \<Rightarrow> (Inr True, w1)))"

definition handle_download :: "json \<Rightarrow> json \<Rightarrow> world \<Rightarrow> bool \<times> world" where
  "handle_download url filename w =
     (case handle_download_try url filename w of
        (Inl e, w1) \<Rightarrow> (False, w1)
      | (Inr success, w1) \<Rightarrow> (success, w1))"

subsection \<open>\<^verbatim>\<open>main\<close>\<close>

text \<open>How one pass through the body of \<^verbatim>\<open>while True\<close> ends.\<close>

datatype flow = Break | Next

text \<open>A response written at the end of a branch; a fault of the write leaves the \<^verbatim>\<open>try\<close>.\<close>

definition respond :: "json \<Rightarrow> world \<Rightarrow> (fault + flow) \<times> world" where
  "respond response w =
     (case write_message response w of
        (Inl e, w1) \<Rightarrow> (Inl e, w1)
      | (Inr u, w1) \<Rightarrow> (Inr Next, w1))"

definition pong :: json where
  "pong =
     JObj [(ascii ''type'', JStr (ascii ''pong'')),
           (ascii ''status'', JStr (ascii ''connected'')),
           (ascii ''version'', JStr (ascii ''1.0.0''))]"

definition download_response :: "bool \<Rightarrow> json \<Rightarrow> json" where
  "download_response success url =
     JObj [(ascii ''type'', JStr (ascii ''download_response'')),
           (ascii ''success'', JBool success),
           (ascii ''url'', url)]"

definition status_response :: json where
  "status_response =
     JObj [(ascii ''type'', JStr (ascii ''status_response'')),
           (ascii ''connected'', JBool True),
           (ascii ''app_running'', JBool True)]"

definition error_response :: "pystr \<Rightarrow> json" where
  "error_response text = JObj [(ascii ''type'', JStr (ascii ''error'')), (ascii ''message'', JStr text)]"

text \<open>The body of the \<^verbatim>\<open>try\<close> inside the loop.\<close>

definition main_try :: "world \<Rightarrow> (fault + flow) \<times> world" where
  "main_try w =
     (case read_message w of
        (Inl e, w1) \<Rightarrow> (Inl e, w1)
      | (Inr message, w1) \<Rightarrow>
          if \<not> truthy message then (Inr Break, w1)
          else
            (case py_get message (ascii ''type'') (JStr []) of
               Inl e \<Rightarrow> (Inl e, w1)
             | Inr msg_type \<Rightarrow>
                 if msg_type = JStr (ascii ''ping'') then respond pong w1
                 else if msg_type = JStr (ascii ''download'') then
                   (case py_get message (ascii ''url'') (JStr []) of
                      Inl e \<Rightarrow> (Inl e, w1)
                    | Inr url \<Rightarrow>
                        (case py_get message (ascii ''filename'') (JStr []) of
                           Inl e \<Rightarrow> (Inl e, w1)
                         | Inr filename \<Rightarrow>
                             (case handle_download url filename w1 of
                                (success, w2) \<Rightarrow> respond (download_response success url) w2)))
                 else if msg_type = JStr (ascii ''status'') then respond status_response w1
                 else
                   respond (error_response (ascii ''Unknown message type: '' @ py_str msg_type)) w1))"

text \<open>
  One pass with its handler: a fault becomes an error response, and a fault of writing
  that response is dropped (\<^verbatim>\<open>except: pass\<close>). Either way the loop goes on.
\<close>

definition main_step :: "world \<Rightarrow> flow \<times> world" where
  "main_step w =
     (case main_try w of
        (Inr f, w1) \<Rightarrow> (f, w1)
      | (Inl e, w1) \<Rightarrow> (Next, snd (write_message (error_response (snd e)) w1)))"

function main :: "world \<Rightarrow> world" where
  "main w = (case main_step w of (Break, w1) \<Rightarrow> w1 | (Next, w1) \<Rightarrow> main w1)"
  by pat_completeness auto

termination
proof -
  have wr: "stdin (snd (write_message r w)) = stdin w" for r w
    by (simp add: write_message_def stdout_flush_def stdout_write_def split: sum.splits)
  have rs: "stdin w1 = stdin w" if "respond r w = (x, w1)" for r w x w1
    using wr [of r w] that by (cases "write_message r w") (auto simp: respond_def split: sum.splits)
  have hd: "stdin w1 = stdin w" if "handle_download u f w = (b, w1)" for u f w b w1
    using that
    by (auto simp: handle_download_def handle_download_try_def subprocess_run_def
             split: prod.splits sum.splits option.splits)
  have rd: "(r = Inr JNull \<and> w1 = w\<lparr>stdin := []\<rparr>) \<or> length (stdin w1) < length (stdin w)"
    if "read_message w = (r, w1)" for r w w1
    using that
    by (cases "stdin w") (auto simp: read_message_def stdin_read_def split: sum.splits if_splits)
  have tr: "length (stdin w1) < length (stdin w)" if "main_try w = (r, w1)" "r \<noteq> Inr Break" for r w w1
  proof -
    obtain m w0 where m: "read_message w = (m, w0)" by (cases "read_message w")
    from rd [OF m] that m show ?thesis
      by (auto simp: main_try_def split: sum.splits if_splits prod.splits dest!: rs hd)
  qed
  show ?thesis
    apply (relation "measure (\<lambda>w. length (stdin w))")
     apply simp
    apply (auto simp: main_step_def wr split: prod.splits sum.splits dest!: tr)
    done
qed

declare main.simps [simp del]

section \<open>The wire format, as the specification words it\<close>

text \<open>
  A frame is a 4-byte unsigned little-endian length followed by exactly that many bytes
  of UTF-8 JSON text. \<open>le32 n\<close> writes the four bytes out, least significant first;
  \<open>payload v\<close> is the text \<^verbatim>\<open>json.dumps\<close> prints for \<open>v\<close>, one byte for each of its
  characters.
\<close>

definition le32 :: "nat \<Rightarrow> byte list" where
  "le32 n =
     [of_nat (n mod 256), of_nat (n div 256 mod 256),
      of_nat (n div 65536 mod 256), of_nat (n div 16777216 mod 256)]"

definition frame :: "byte list \<Rightarrow> byte list" where
  "frame bs = le32 (length bs) @ bs"

definition payload :: "json \<Rightarrow> byte list" where
  "payload v = map of_nat (json_dumps v)"

text \<open>A world with the given input and a working output, used to run examples.\<close>

definition bytes :: "string \<Rightarrow> byte list" where
  "bytes s = map of_char s"

definition world0 :: "byte list \<Rightarrow> world" where
  "world0 inp =
     \<lparr>stdin = inp, stdout_buffer = [], stdout_sent = [], stdout_broken = False,
      path_exists = (\<lambda>p. False), spawn = (\<lambda>cmd. None), launched = []\<rparr>"


text \<open>The frame payload the test client sends for a ping: \<^verbatim>\<open>json.dumps({"type": "ping"})\<close>.\<close>

definition ping_text :: "byte list" where
  "ping_text = bytes ''{\"type\": \"ping\"}''"

text \<open>
  A world in which only the second candidate path, the build of the developer, holds the
  application, and every command exits with status 0.
\<close>

definition debug_app :: pystr where
  "debug_app = ascii ''/Users/devitripathy/Library/Developer/Xcode/DerivedData/SwiftFetch-hkguncbcnfxahpcsjswpmkdlbqjt/Build/Products/Debug/SwiftFetch.app''"

definition world1 :: world where
  "world1 =
     \<lparr>stdin = [], stdout_buffer = [], stdout_sent = [], stdout_broken = False,
      path_exists = (\<lambda>p. p = debug_app), spawn = (\<lambda>cmd. None), launched = []\<rparr>"

section \<open>Objects that survive the round trip\<close>



text \<open>
  What may stand behind the text of a value inside a text printed by \<^verbatim>\<open>json.dumps\<close>:
  nothing, a comma or a closing bracket. \<open>pair_text\<close> is the text of one member of an
  object.
\<close>

definition follow_ok :: "pystr \<Rightarrow> bool" where
  "follow_ok rest = (case rest of [] \<Rightarrow> True | c # cs \<Rightarrow> c = 44 \<or> c = 93 \<or> c = 125)"



section \<open>Length prefix\<close>

lemma byte_of_nat_mod: "(of_nat (n mod 256) :: byte) = of_nat n"
  by (simp add: word_unat_eq_iff unat_of_nat)

lemma length_le32: "length (le32 n) = 4"
  by (simp add: le32_def)

lemma struct_pack_I_le32: "n < 4294967296 \<Longrightarrow> struct_pack_I n = Inr (le32 n)"
  by (simp add: struct_pack_I_def le32_def byte_of_nat_mod)

lemma le32_value:
  fixes n :: nat
  assumes "n < 4294967296"
  shows "n mod 256 + 256 * (n div 256 mod 256) + 65536 * (n div 65536 mod 256) +
         16777216 * (n div 16777216 mod 256) = n"
proof -
  define d1 where "d1 = n div 256"
  define d2 where "d2 = d1 div 256"
  define d3 where "d3 = d2 div 256"
  have a: "n div 65536 = d2" by (simp add: d1_def d2_def div_mult2_eq)
  have b: "n div 16777216 = d3" by (simp add: d1_def d2_def d3_def div_mult2_eq)
  have c: "d3 < 256" using assms unfolding b [symmetric] by simp
  have 1: "n = n mod 256 + 256 * d1" by (simp add: d1_def)
  have 2: "d1 = d1 mod 256 + 256 * d2" by (simp add: d2_def)
  have 3: "d2 = d2 mod 256 + 256 * d3" by (simp add: d3_def)
  have "n mod 256 + 256 * (d1 mod 256) + 65536 * (d2 mod 256) + 16777216 * d3 = n"
    using 1 2 3 by linarith
  then show ?thesis
    using c by (simp add: a b d1_def [symmetric])
qed

lemma struct_unpack_I_le32: "n < 4294967296 \<Longrightarrow> struct_unpack_I (le32 n) = Inr n"
  using le32_value [of n] by (simp add: struct_unpack_I_def le32_def unat_of_nat)

section \<open>The text of a value is ASCII\<close>

lemma utf8_encode_ascii:
  "\<forall>c\<in>set s. c < 128 \<Longrightarrow> utf8_encode_from i s = Inr (map of_nat s)"
  by (induction s arbitrary: i) (auto simp: is_surrogate_def utf8_encode_char_def)


lemma str_nat_digits: "c \<in> set (str_nat n) \<Longrightarrow> 48 \<le> c \<and> c \<le> 57"
proof (induction n rule: str_nat.induct)
  case (1 n)
  then show ?case
    by (subst (asm) (2) str_nat.simps) (auto split: if_splits)
qed

lemma str_int_ascii: "c \<in> set (str_int i) \<Longrightarrow> c < 128"
  by (auto simp: str_int_def dest!: str_nat_digits split: if_splits)

lemma hex2_ascii: "c \<in> set (hex2 n) \<Longrightarrow> c < 128"
  by (auto simp: hex2_def hex_digit_def)

lemma escape_ascii_ascii: "x \<in> set (escape_ascii c) \<Longrightarrow> x < 128"
  by (auto simp: escape_ascii_def hex4_def Let_def dest!: hex2_ascii split: if_splits)

lemma encode_basestring_ascii_ascii: "x \<in> set (encode_basestring_ascii s) \<Longrightarrow> x < 128"
  by (auto simp: encode_basestring_ascii_def dest!: escape_ascii_ascii)

lemma join_set: "x \<in> set (join sep xs) \<Longrightarrow> x \<in> set sep \<or> (\<exists>y\<in>set xs. x \<in> set y)"
  by (induction sep xs rule: join.induct) auto

lemma float_repr_ascii: "c \<in> set (float_repr f) \<Longrightarrow> c < 128"
  by (cases f) (auto simp: ascii_def dest!: str_int_ascii)

lemma json_dumps_ascii: "c \<in> set (json_dumps v) \<Longrightarrow> c < 128"
proof (induction v arbitrary: c)
  case (JArr xs)
  then show ?case by (auto simp: ascii_def dest!: join_set)
next
  case (JObj kvs)
  then show ?case
    by (fastforce simp: ascii_def dest!: join_set encode_basestring_ascii_ascii)
qed (auto simp: ascii_def split: if_splits
       dest: str_int_ascii float_repr_ascii encode_basestring_ascii_ascii)


section \<open>Frames written and read\<close>

lemma utf8_encode_json_dumps: "utf8_encode (json_dumps v) = Inr (payload v)"
  unfolding utf8_encode_def payload_def
  by (rule utf8_encode_ascii) (auto dest: json_dumps_ascii)


lemma length_payload: "length (payload v) = length (json_dumps v)"
  by (simp add: payload_def)

lemma write_message_ok:
  assumes "\<not> stdout_broken w" and "length (json_dumps m) < 4294967296"
  shows "write_message m w =
           (Inr (), w\<lparr>stdout_sent := stdout_sent w @ stdout_buffer w @ frame (payload m),
                      stdout_buffer := []\<rparr>)"
  using assms
  by (simp add: write_message_def utf8_encode_json_dumps struct_pack_I_le32 length_payload
        stdout_flush_def stdout_write_def frame_def)


lemma read_message_frame:
  assumes "stdin w = frame p @ rest" and "length p < 4294967296"
  shows "read_message w =
           ((case utf8_decode p of Inl e \<Rightarrow> Inl e | Inr s \<Rightarrow> json_loads s),
            w\<lparr>stdin := rest\<rparr>)"
proof -
  have "take 4 (stdin w) = le32 (length p)" "drop 4 (stdin w) = p @ rest"
    using assms(1) by (simp_all add: frame_def length_le32)
  moreover have "le32 (length p) \<noteq> []"
    by (simp add: le32_def)
  ultimately show ?thesis
    using assms(2)
    by (simp add: read_message_def stdin_read_def struct_unpack_I_le32 split: sum.splits)
qed

section \<open>One pass of the loop\<close>

lemma respond_ok:
  assumes "\<not> stdout_broken w" and "length (json_dumps r) < 4294967296"
  shows "respond r w =
           (Inr Next, w\<lparr>stdout_sent := stdout_sent w @ stdout_buffer w @ frame (payload r),
                         stdout_buffer := []\<rparr>)"
  by (simp add: respond_def write_message_ok [OF assms])


lemma main_break: "main_step w = (Break, w1) \<Longrightarrow> main w = w1"
  by (subst main.simps) simp



lemma absent_type:
  assumes "read_message w = (Inr (JObj kvs), w1)" and "kvs \<noteq> []"
    and "map_of kvs (ascii ''type'') = None"
  shows "main_try w = respond (error_response (ascii ''Unknown message type: '')) w1"
proof -
  have "JStr [] \<noteq> JStr (ascii ''ping'')" "JStr [] \<noteq> JStr (ascii ''download'')"
    "JStr [] \<noteq> JStr (ascii ''status'')"
    by (simp_all add: ascii_def)
  then show ?thesis
    using assms by (simp add: main_try_def py_get_def py_str_def)
qed





lemma find_app_None: "find_app w ps = None \<longleftrightarrow> (\<forall>p\<in>set ps. \<not> path_exists w p)"
  by (induction ps) auto

lemma find_app_Some:
  "find_app w ps = Some p \<Longrightarrow>
   \<exists>i<length ps. ps ! i = p \<and> path_exists w p \<and> (\<forall>j<i. \<not> path_exists w (ps ! j))"
proof (induction ps)
  case Nil
  then show ?case by simp
next
  case (Cons q ps)
  show ?case
  proof (cases "path_exists w q")
    case True
    with Cons.prems have "p = q" by simp
    with True show ?thesis by (intro exI [of _ 0]) simp
  next
    case False
    with Cons obtain i where i: "i < length ps" "ps ! i = p" "path_exists w p"
      "\<forall>j<i. \<not> path_exists w (ps ! j)"
      by auto
    have "\<forall>j<Suc i. \<not> path_exists w ((q # ps) ! j)"
      using False i(4) by (auto simp: less_Suc_eq_0_disj)
    with i show ?thesis by (intro exI [of _ "Suc i"]) simp
  qed
qed

lemma handle_download_filename:
  "handle_download url filename w = handle_download url filename' w"
  by (simp add: handle_download_def handle_download_try_def)



lemma main_at_eof: "stdin w = [] \<Longrightarrow> main w = w"
proof -
  assume a: "stdin w = []"
  then have "w\<lparr>stdin := []\<rparr> = w" by (cases w) simp
  with a have "main_step w = (Break, w)"
    by (simp add: main_step_def main_try_def read_message_def stdin_read_def)
  then show ?thesis by (rule main_break)
qed

section \<open>\<^verbatim>\<open>json.loads\<close> recovers what \<^verbatim>\<open>json.dumps\<close> prints\<close>





lemma str_nat_nonempty: "str_nat n \<noteq> []"
  by (subst str_nat.simps) simp

































lemma follow_ok_simps [simp]:
  "follow_ok []" "follow_ok (44 # cs)" "follow_ok (93 # cs)" "follow_ok (125 # cs)"
  by (simp_all add: follow_ok_def)







section \<open>Claims\<close>











text \<open>
  C6. \<^verbatim>\<open>handle_download\<close> returns a boolean for every url and raises nothing: a fault of
  the body of its \<^verbatim>\<open>try\<close> becomes \<^verbatim>\<open>False\<close>. The candidate paths are probed in their
  order and the first that exists is the one launched. When none exists the result is
  \<^verbatim>\<open>False\<close> and the world is untouched: no command has run.
\<close>

theorem handle_download_contract:
  "(case find_app w app_paths of
      None \<Rightarrow>
        (\<forall>p\<in>set app_paths. \<not> path_exists w p) \<and> handle_download url filename w = (False, w)
    | Some p \<Rightarrow>
        (\<exists>i<length app_paths.
           app_paths ! i = p \<and> path_exists w p \<and> (\<forall>j<i. \<not> path_exists w (app_paths ! j))) \<and>
        handle_download url filename w =
          (case subprocess_run [JStr (ascii ''open''), JStr (ascii ''-a''), JStr p, url] w of
             (Inl e, w1) \<Rightarrow> (False, w1)
           | (Inr u, w1) \<Rightarrow> (True, w1))) \<and>
   (\<forall>e w1. handle_download_try url filename w = (Inl e, w1) \<longrightarrow>
            handle_download url filename w = (False, w1))"
proof -
  have caught: "\<forall>e w1. handle_download_try url filename w = (Inl e, w1) \<longrightarrow>
                  handle_download url filename w = (False, w1)"
    by (simp add: handle_download_def)
  show ?thesis
  proof (cases "find_app w app_paths")
    case None
    have "\<forall>p\<in>set app_paths. \<not> path_exists w p"
      using None by (simp add: find_app_None)
    moreover have "handle_download url filename w = (False, w)"
      by (simp add: handle_download_def handle_download_try_def None)
    ultimately show ?thesis
      using caught by (simp add: None)
  next
    case (Some p)
    have "handle_download url filename w =
            (case subprocess_run [JStr (ascii ''open''), JStr (ascii ''-a''), JStr p, url] w of
               (Inl e, w1) \<Rightarrow> (False, w1)
             | (Inr u, w1) \<Rightarrow> (True, w1))"
      by (simp add: handle_download_def handle_download_try_def Some split: prod.splits sum.splits)
    then show ?thesis
      using find_app_Some [OF Some] caught by (simp add: Some)
  qed
qed

theorem handle_download_contract_witness:
  "handle_download (JStr (ascii ''https://example.com/file'')) (JStr []) (world0 []) =
     (False, world0 []) \<and>
   handle_download (JStr (ascii ''https://example.com/file'')) (JStr []) world1 =
     (True, world1\<lparr>launched :=
        [[ascii ''open'', ascii ''-a'', debug_app, ascii ''https://example.com/file'']]\<rparr>) \<and>
   handle_download (JInt 5) (JStr []) world1 = (False, world1)"
proof -
  have a: "find_app (world0 []) app_paths = None"
    by (simp add: app_paths_def world0_def)
  have b: "find_app world1 app_paths = Some debug_app"
    by (simp add: app_paths_def world1_def debug_app_def ascii_def)
  have s: "exec_arg (JStr debug_app) = Inr debug_app"
    "exec_arg (JStr (ascii ''open'')) = Inr (ascii ''open'')"
    "exec_arg (JStr (ascii ''-a'')) = Inr (ascii ''-a'')"
    "exec_arg (JStr (ascii ''https://example.com/file'')) = Inr (ascii ''https://example.com/file'')"
    "exec_arg (JInt 5) = Inl (TypeError, ascii ''expected str, bytes or os.PathLike object, not int'')"
    by code_simp+
  have c: "subprocess_run
             [JStr (ascii ''open''), JStr (ascii ''-a''), JStr debug_app,
              JStr (ascii ''https://example.com/file'')] world1 =
           (Inr (), world1\<lparr>launched :=
              [[ascii ''open'', ascii ''-a'', debug_app, ascii ''https://example.com/file'']]\<rparr>)"
    by (simp add: subprocess_run_def s) (simp add: world1_def)
  have d: "subprocess_run
             [JStr (ascii ''open''), JStr (ascii ''-a''), JStr debug_app, JInt 5] world1 =
           (Inl (TypeError, ascii ''expected str, bytes or os.PathLike object, not int''), world1)"
    by (simp add: subprocess_run_def s)
  show ?thesis
    using handle_download_contract [of "world0 []" "JStr (ascii ''https://example.com/file'')" "JStr []"]
      handle_download_contract [of world1 "JStr (ascii ''https://example.com/file'')" "JStr []"]
      handle_download_contract [of world1 "JInt 5" "JStr []"]
    by (simp add: a b c d)
qed

text \<open>
  C4, as stated, fails: the filename is not preserved in the response. A download message
  that carries \<^verbatim>\<open>"filename": "f.bin"\<close> is answered with an object of the three fields
  \<^verbatim>\<open>type\<close>, \<^verbatim>\<open>success\<close> and \<^verbatim>\<open>url\<close>, byte for byte the answer to the same message
  without a filename.
\<close>

theorem download_response_drops_filename:
  "stdout_sent (main (world0 (frame
      (bytes ''{\"type\": \"download\", \"url\": \"u\", \"filename\": \"f.bin\"}'')))) =
     frame (bytes ''{\"type\": \"download_response\", \"success\": false, \"url\": \"u\"}'') \<and>
   stdout_sent (main (world0 (frame
      (bytes ''{\"type\": \"download\", \"url\": \"u\", \"filename\": \"f.bin\"}'')))) =
     stdout_sent (main (world0 (frame (bytes ''{\"type\": \"download\", \"url\": \"u\"}''))))"
  by code_simp

text \<open>
  C4, amended. For a message of type \<^verbatim>\<open>download\<close> the pass takes \<^verbatim>\<open>url\<close> and \<^verbatim>\<open>filename\<close>
  from the message, each the empty string when absent, calls \<^verbatim>\<open>handle_download\<close> with
  both and answers \<^verbatim>\<open>{"type": "download_response", "success": s, "url": url}\<close>, where \<open>s\<close>
  is what \<^verbatim>\<open>handle_download\<close> returned and \<open>url\<close> the value taken from the message. The
  filename influences neither \<^verbatim>\<open>handle_download\<close> nor the response.
\<close>

theorem download_message:
  assumes "read_message w = (Inr (JObj kvs), w1)"
    and "map_of kvs (ascii ''type'') = Some (JStr (ascii ''download''))"
    and "url = (case map_of kvs (ascii ''url'') of None \<Rightarrow> JStr [] | Some u \<Rightarrow> u)"
    and "filename = (case map_of kvs (ascii ''filename'') of None \<Rightarrow> JStr [] | Some f \<Rightarrow> f)"
  shows "main_try w =
           (case handle_download url filename w1 of
              (success, w2) \<Rightarrow>
                respond
                  (JObj [(ascii ''type'', JStr (ascii ''download_response'')),
                         (ascii ''success'', JBool success),
                         (ascii ''url'', url)])
                  w2) \<and>
         handle_download url filename w1 = handle_download url (JStr []) w1"
proof
  have ne: "kvs \<noteq> []"
    using assms(2) by auto
  have "JStr (ascii ''download'') \<noteq> JStr (ascii ''ping'')"
    by (simp add: ascii_def)
  then show "main_try w =
           (case handle_download url filename w1 of
              (success, w2) \<Rightarrow>
                respond
                  (JObj [(ascii ''type'', JStr (ascii ''download_response'')),
                         (ascii ''success'', JBool success),
                         (ascii ''url'', url)])
                  w2)"
    using assms ne
    by (simp add: main_try_def py_get_def download_response_def split: prod.splits)
  show "handle_download url filename w1 = handle_download url (JStr []) w1"
    by (rule handle_download_filename)
qed

theorem download_message_witness:
  "main_step (world0 (frame (bytes ''{\"type\": \"download\"}''))) =
     (Next, (world0 [])\<lparr>stdout_sent :=
        frame (bytes ''{\"type\": \"download_response\", \"success\": false, \"url\": \"\"}'')\<rparr>)"
proof -
  have p: "(case utf8_decode (bytes ''{\"type\": \"download\"}'') of
              Inl e \<Rightarrow> Inl e | Inr s \<Rightarrow> json_loads s) =
             Inr (JObj [(ascii ''type'', JStr (ascii ''download''))])"
    by code_simp
  have l: "length (bytes ''{\"type\": \"download\"}'') < 4294967296"
    by code_simp
  have a: "read_message (world0 (frame (bytes ''{\"type\": \"download\"}''))) =
             (Inr (JObj [(ascii ''type'', JStr (ascii ''download''))]), world0 [])"
    using read_message_frame [of "world0 (frame (bytes ''{\"type\": \"download\"}''))" _ "[]", OF _ l]
    by (simp add: p world0_def)
  have b: "map_of [(ascii ''type'', JStr (ascii ''download''))] (ascii ''type'') =
             Some (JStr (ascii ''download''))"
    by simp
  have u: "JStr [] = (case map_of [(ascii ''type'', JStr (ascii ''download''))] (ascii ''url'') of
                        None \<Rightarrow> JStr [] | Some u \<Rightarrow> u)"
    by (simp add: ascii_def)
  have f: "JStr [] = (case map_of [(ascii ''type'', JStr (ascii ''download''))] (ascii ''filename'') of
                        None \<Rightarrow> JStr [] | Some f \<Rightarrow> f)"
    by (simp add: ascii_def)
  have h: "handle_download (JStr []) (JStr []) (world0 []) = (False, world0 [])"
    by (simp add: handle_download_def handle_download_try_def app_paths_def world0_def)
  have c: "\<not> stdout_broken (world0 [])"
    by (simp add: world0_def)
  have d: "length (json_dumps (download_response False (JStr []))) < 4294967296"
    by code_simp
  have e: "payload (download_response False (JStr [])) =
             bytes ''{\"type\": \"download_response\", \"success\": false, \"url\": \"\"}''"
    by code_simp
  have r: "respond (download_response False (JStr [])) (world0 []) =
             (Inr Next, (world0 [])\<lparr>stdout_sent :=
                frame (bytes ''{\"type\": \"download_response\", \"success\": false, \"url\": \"\"}'')\<rparr>)"
    using respond_ok [OF c d] by (simp add: e world0_def)
  show ?thesis
    using download_message [OF a b u f]
    by (simp add: h r main_step_def download_response_def [symmetric])
qed




text \<open>
  C1. The loop is meant to stop only at the end of the input. The code stops on every
  message that is false in Python: a frame holding \<^verbatim>\<open>{}\<close> ends the loop with no response,
  and the ping frame behind it is never read. A message without a \<^verbatim>\<open>type\<close> that is not
  empty, \<^verbatim>\<open>{"a": 1}\<close>, is answered and the ping after it as well.
\<close>

theorem empty_object_stops_loop:
  "stdin (main (world0 (frame (bytes ''{}'') @ frame ping_text))) = frame ping_text \<and>
   stdout_sent (main (world0 (frame (bytes ''{}'') @ frame ping_text))) = [] \<and>
   stdout_sent (main (world0 (frame (bytes ''{\"a\": 1}'') @ frame ping_text))) =
     frame (bytes ''{\"type\": \"error\", \"message\": \"Unknown message type: \"}'') @
     frame (payload pong)"
  by code_simp




end
